theory Spec2Isabelle
  imports Main "HOL-Library.Sublist"
begin

section \<open>Strings of the Go standard library used by pixelmatch-dirs\<close>

text \<open>
  A Go string is a sequence of bytes; \<^typ>\<open>string\<close> is a list of 8-bit characters.
  The program calls \<^verbatim>\<open>strings.Split\<close> with the one-byte separators
  \<^verbatim>\<open>"\n"\<close> and \<^verbatim>\<open>":"\<close> only, so the separator is a character here.
  The result always has one more element than the text has separators.
\<close>

fun Split :: "string \<Rightarrow> char \<Rightarrow> string list" where
  "Split [] sep = [[]]"
| "Split (c # cs) sep =
     (if c = sep then [] # Split cs sep
      else (case Split cs sep of [] \<Rightarrow> [[c]] | w # ws \<Rightarrow> (c # w) # ws))"

definition HasSuffix :: "string \<Rightarrow> string \<Rightarrow> bool" where
  "HasSuffix s suf \<longleftrightarrow> length suf \<le> length s \<and> drop (length s - length suf) s = suf"

text \<open>
  \<^verbatim>\<open>strings.TrimSpace\<close> removes leading and trailing white space as defined by
  \<^verbatim>\<open>unicode.IsSpace\<close>: the six ASCII characters tab, newline, vertical tab, form
  feed, carriage return and space, and the code points U+0085, U+00A0, U+1680,
  U+2000 to U+200A, U+2028, U+2029, U+202F, U+205F and U+3000, here in their UTF-8
  encodings. A byte that does not start one of these encodings is not white space.
\<close>

definition spaceRunes :: "string list" where
  "spaceRunes =
     [[CHR 0x09], [CHR 0x0A], [CHR 0x0B], [CHR 0x0C], [CHR 0x0D], [CHR 0x20],
      [CHR 0xC2, CHR 0x85], [CHR 0xC2, CHR 0xA0], [CHR 0xE1, CHR 0x9A, CHR 0x80],
      [CHR 0xE2, CHR 0x80, CHR 0x80], [CHR 0xE2, CHR 0x80, CHR 0x81],
      [CHR 0xE2, CHR 0x80, CHR 0x82], [CHR 0xE2, CHR 0x80, CHR 0x83],
      [CHR 0xE2, CHR 0x80, CHR 0x84], [CHR 0xE2, CHR 0x80, CHR 0x85],
      [CHR 0xE2, CHR 0x80, CHR 0x86], [CHR 0xE2, CHR 0x80, CHR 0x87],
      [CHR 0xE2, CHR 0x80, CHR 0x88], [CHR 0xE2, CHR 0x80, CHR 0x89],
      [CHR 0xE2, CHR 0x80, CHR 0x8A], [CHR 0xE2, CHR 0x80, CHR 0xA8],
      [CHR 0xE2, CHR 0x80, CHR 0xA9], [CHR 0xE2, CHR 0x80, CHR 0xAF],
      [CHR 0xE2, CHR 0x81, CHR 0x9F], [CHR 0xE3, CHR 0x80, CHR 0x80]]"

text \<open>The number of bytes of the rune of \<open>rs\<close> that \<open>s\<close> starts with, 0 when there is none.\<close>

definition runeWidth :: "string list \<Rightarrow> string \<Rightarrow> nat" where
  "runeWidth rs s =
     (case filter (\<lambda>r. take (length r) s = r) rs of [] \<Rightarrow> 0 | r # _ \<Rightarrow> length r)"

fun trimRunes :: "string list \<Rightarrow> string \<Rightarrow> string" where
  "trimRunes rs [] = []"
| "trimRunes rs (c # cs) =
     (if runeWidth rs (c # cs) = 0 then c # cs
      else trimRunes rs (drop (runeWidth rs (c # cs) - 1) cs))"

definition TrimLeftSpace :: "string \<Rightarrow> string" where
  "TrimLeftSpace s = trimRunes spaceRunes s"

definition TrimRightSpace :: "string \<Rightarrow> string" where
  "TrimRightSpace s = rev (trimRunes (map rev spaceRunes) (rev s))"

definition TrimSpace :: "string \<Rightarrow> string" where
  "TrimSpace s = TrimRightSpace (TrimLeftSpace s)"

text \<open>
  In the words of the specification, a value is white-space-trimmed: \<open>t\<close> is what is
  left of \<open>s\<close> when white space, and nothing else, is taken from its two ends, and
  no white space is left at either end. This does not refer to \<open>TrimSpace\<close>.
\<close>

definition whiteSpace :: "string \<Rightarrow> bool" where
  "whiteSpace s \<longleftrightarrow> (\<exists>ws. set ws \<subseteq> set spaceRunes \<and> s = concat ws)"

definition trimmedOf :: "string \<Rightarrow> string \<Rightarrow> bool" where
  "trimmedOf t s \<longleftrightarrow>
     (\<exists>lead trail. whiteSpace lead \<and> whiteSpace trail \<and> s = lead @ t @ trail) \<and>
     (\<forall>r \<in> set spaceRunes. \<not> prefix r t \<and> \<not> suffix r t)"

section \<open>The pixel-mismatch record and its parser\<close>

text \<open>
  An abrupt end of the process: \<^verbatim>\<open>log.Fatalf\<close> (exit status 1), named by the place
  that calls it, or the run-time panic of an index out of range (exit status 2), with
  the index and the length of the slice.
\<close>

datatype abort =
    DockerNotInstalled | ThresholdError | SourceDirError | SourceNotDir
  | TargetDirError | TargetNotDir | TmpDirError | TmpNotDir
  | ReadDirError | ReadFileError | CopyFileError | AbsPathError
  | FileMoveError | CommandExecutionError | FileRemoveError
  | TmpSourceRemoveError | TmpTargetRemoveError
  | IndexOutOfRange nat nat

fun exitStatus :: "abort \<Rightarrow> int" where
  "exitStatus (IndexOutOfRange i n) = 2"
| "exitStatus a = 1"

text \<open>The struct \<^verbatim>\<open>diffPixel\<close>; its fields \<^verbatim>\<open>file\<close>, \<^verbatim>\<open>pixels\<close> and \<^verbatim>\<open>error\<close> carry a prefix.\<close>

record diffPixel =
  dp_file :: string
  dp_pixels :: string
  dp_error :: string

text \<open>Sequencing of steps that may end the process: the first abort is the result.\<close>

definition andThen :: "'e + 'a \<Rightarrow> ('a \<Rightarrow> 'e + 'b) \<Rightarrow> 'e + 'b" where
  "andThen r f = (case r of Inl e \<Rightarrow> Inl e | Inr x \<Rightarrow> f x)"

text \<open>Indexing a slice: Go panics where the index is not below the length.\<close>

definition index :: "'a list \<Rightarrow> nat \<Rightarrow> abort + 'a" where
  "index xs i = (if i < length xs then Inr (xs ! i) else Inl (IndexOutOfRange i (length xs)))"

text \<open>
  \<^verbatim>\<open>newDiffPixel\<close>, in the order in which Go evaluates it: \<^verbatim>\<open>lines[1]\<close>,
  \<^verbatim>\<open>lines[2]\<close>, \<^verbatim>\<open>pixels[1]\<close>, \<^verbatim>\<open>errorPer[1]\<close>.
\<close>

definition newDiffPixel :: "string \<Rightarrow> string \<Rightarrow> abort + diffPixel" where
  "newDiffPixel fileName pixelmatchOut =
     (let lines = Split pixelmatchOut (CHR 0x0A) in
      andThen (index lines 1) (\<lambda>l1.
      andThen (index lines 2) (\<lambda>l2.
      andThen (index (Split l1 (CHR '':'')) 1) (\<lambda>p.
      andThen (index (Split l2 (CHR '':'')) 1) (\<lambda>r.
      Inr \<lparr>dp_file = fileName, dp_pixels = TrimSpace p, dp_error = TrimSpace r\<rparr>)))))"

section \<open>The file system, the process state and the environment\<close>

text \<open>
  Paths are the strings the program passes to the operating system, relative to its
  working directory. A path holds a regular file with its bytes, or a directory;
  \<^verbatim>\<open>os.Stat\<close> fails on a path that holds neither, and on no other.
  The state of a run is the file system, the text written to standard output, the
  argument vectors of the commands run so far (a command that fails to start is
  among them), the directories listed so far, and the two accumulators of
  \<^verbatim>\<open>main\<close>.
\<close>

datatype entry = File string | Dir

type_synonym fs = "string \<rightharpoonup> entry"

record state =
  files :: fs
  stdout :: string
  calls :: "string list list"
  scans :: "string list"
  diffDimensions :: "string list"
  diffPixels :: "diffPixel list"

text \<open>
  What \<^verbatim>\<open>cmd.CombinedOutput\<close> gives back: whether the error is non-nil, the value of
  \<^verbatim>\<open>cmd.ProcessState.ExitCode()\<close> (it is \<open>-1\<close> when the process did not start or
  was killed by a signal), and the captured output.
\<close>

record cmdResult =
  cmdErr :: bool
  exitCode :: int
  cmdOut :: string

text \<open>
  What the program takes from outside: whether \<^verbatim>\<open>docker\<close> is on the search path,
  which strings \<^verbatim>\<open>strconv.ParseFloat(_, 32)\<close> accepts, the names \<^verbatim>\<open>ioutil.ReadDir\<close>
  returns, the result of \<^verbatim>\<open>filepath.Abs\<close>, the paths the operating system lets the
  process create, overwrite, remove or rename, the effect of a
  \<^verbatim>\<open>docker run\<close> on the file system with its result, and the text the
  \<^verbatim>\<open>tabwriter\<close> emits for the text written to it.
\<close>

record env =
  dockerInPath :: bool
  parseFloat :: "string \<Rightarrow> bool"
  readDir :: "string \<Rightarrow> string list option"
  absPath :: "string \<Rightarrow> string option"
  permitted :: "string \<Rightarrow> bool"
  docker :: "fs \<Rightarrow> string list \<Rightarrow> cmdResult \<times> fs"
  tabwriter :: "string \<Rightarrow> string"

type_synonym 'a res = "(abort \<times> state) + 'a"

text \<open>
  The file operations. A removal or a move needs the path to exist and the operating
  system to permit it; a directory is created at a free, permitted path; only a
  regular file can be read; a file is written at a permitted path that is no directory.
\<close>

definition os_Remove :: "env \<Rightarrow> fs \<Rightarrow> string \<Rightarrow> fs option" where
  "os_Remove e fs p =
     (case fs p of None \<Rightarrow> None
      | Some x \<Rightarrow> if permitted e p then Some (fs(p := None)) else None)"

definition os_Rename :: "env \<Rightarrow> fs \<Rightarrow> string \<Rightarrow> string \<Rightarrow> fs option" where
  "os_Rename e fs old new =
     (case fs old of None \<Rightarrow> None
      | Some x \<Rightarrow>
          if permitted e old \<and> permitted e new then Some ((fs(old := None))(new \<mapsto> x))
          else None)"

definition os_Mkdir :: "env \<Rightarrow> fs \<Rightarrow> string \<Rightarrow> fs option" where
  "os_Mkdir e fs p = (if fs p = None \<and> permitted e p then Some (fs(p \<mapsto> Dir)) else None)"

definition ReadFile :: "fs \<Rightarrow> string \<Rightarrow> string option" where
  "ReadFile fs p = (case fs p of Some (File b) \<Rightarrow> Some b | _ \<Rightarrow> None)"

definition WriteFile :: "env \<Rightarrow> fs \<Rightarrow> string \<Rightarrow> string \<Rightarrow> fs option" where
  "WriteFile e fs p b =
     (case fs p of Some Dir \<Rightarrow> None
      | _ \<Rightarrow> if permitted e p then Some (fs(p \<mapsto> File b)) else None)"

text \<open>
  \<^verbatim>\<open>filepath.Clean\<close> on a system whose separator is the slash. The path is read
  element by element: an empty element and \<^verbatim>\<open>.\<close> are dropped; \<^verbatim>\<open>..\<close> removes the
  element before it when there is one that is not itself \<^verbatim>\<open>..\<close>, is kept when the
  path is not rooted, and is dropped at the root; every other element is kept. The
  elements kept so far are held with the last one first. The result is the kept
  elements joined by single slashes, after the leading slash of a rooted path, and
  \<^verbatim>\<open>.\<close> when that is empty.
\<close>

fun joinElems :: "string list \<Rightarrow> string" where
  "joinElems [] = []"
| "joinElems [x] = x"
| "joinElems (x # y # ys) = x @ ''/'' @ joinElems (y # ys)"

fun cleanElems :: "bool \<Rightarrow> string list \<Rightarrow> string list \<Rightarrow> string list" where
  "cleanElems rooted out [] = rev out"
| "cleanElems rooted out (c # cs) =
     (if c = [] \<or> c = ''.'' then cleanElems rooted out cs
      else if c = ''..'' then
        (if out \<noteq> [] \<and> hd out \<noteq> ''..'' then cleanElems rooted (tl out) cs
         else if \<not> rooted then cleanElems rooted (''..'' # out) cs
         else cleanElems rooted out cs)
      else cleanElems rooted (c # out) cs)"

definition Clean :: "string \<Rightarrow> string" where
  "Clean path =
     (if path = [] then ''.''
      else
        let rooted = (hd path = CHR ''/'');
            out = (if rooted then ''/'' else []) @
                  joinElems (cleanElems rooted [] (Split path (CHR ''/'')))
        in if out = [] then ''.'' else out)"


text \<open>
  \<^verbatim>\<open>filepath.Join\<close> of two elements: from the first element that is not empty on,
  the elements are joined by a slash and the result is cleaned; the empty string
  when both are empty.
\<close>

definition Join :: "string \<Rightarrow> string \<Rightarrow> string" where
  "Join a b =
     (if a \<noteq> [] then Clean (a @ ''/'' @ b) else if b \<noteq> [] then Clean b else [])"

definition print :: "string \<Rightarrow> state \<Rightarrow> state" where
  "print s st = st\<lparr>stdout := stdout st @ s\<rparr>"

section \<open>Configuration\<close>

definition defaultThreshold :: string where "defaultThreshold = ''0.015''"
definition defaultSrcDir :: string where "defaultSrcDir = ''src''"
definition defaultTargetDir :: string where "defaultTargetDir = ''target''"
definition tmpDir :: string where "tmpDir = ''tmp''"
definition container :: string where "container = ''arisawa/pixelmatch:v5.1.0''"
definition exitCodeDifferentDimension :: int where "exitCodeDifferentDimension = 65"
definition exitCodeDifferentPixels :: int where "exitCodeDifferentPixels = 66"

record config =
  threshold :: string
  srcDir :: string
  targetDir :: string

text \<open>\<^verbatim>\<open>flag.Arg(i)\<close>: the i-th positional argument, the empty string when there is none.\<close>

definition flag_Arg :: "string list \<Rightarrow> nat \<Rightarrow> string" where
  "flag_Arg args i = (if i < length args then args ! i else [])"

text \<open>Lines 68 to 76 of \<^verbatim>\<open>main\<close>: the target directory is read from argument 1.\<close>

definition parseArgs :: "string list \<Rightarrow> config" where
  "parseArgs args =
     \<lparr>threshold = (if flag_Arg args 0 = [] then defaultThreshold else flag_Arg args 0),
      srcDir = (if flag_Arg args 1 = [] then defaultSrcDir else flag_Arg args 1),
      targetDir = (if flag_Arg args 1 = [] then defaultTargetDir else flag_Arg args 1)\<rparr>"

section \<open>Startup validation and the transient workspace\<close>

definition validate :: "env \<Rightarrow> config \<Rightarrow> state \<Rightarrow> state res" where
  "validate e cfg st =
     (if \<not> dockerInPath e then Inl (DockerNotInstalled, st)
      else if \<not> parseFloat e (threshold cfg) then Inl (ThresholdError, st)
      else case files st (srcDir cfg) of
        None \<Rightarrow> Inl (SourceDirError, st)
      | Some (File b) \<Rightarrow> Inl (SourceNotDir, st)
      | Some Dir \<Rightarrow>
          (case files st (targetDir cfg) of
             None \<Rightarrow> Inl (TargetDirError, st)
           | Some (File b) \<Rightarrow> Inl (TargetNotDir, st)
           | Some Dir \<Rightarrow> Inr st))"

definition checkTmpDir :: "env \<Rightarrow> state \<Rightarrow> state res" where
  "checkTmpDir e st =
     (case files st tmpDir of
        None \<Rightarrow>
          (case os_Mkdir e (files st) tmpDir of
             None \<Rightarrow> Inl (TmpDirError, st)
           | Some fs \<Rightarrow> Inr (st\<lparr>files := fs\<rparr>))
      | Some (File b) \<Rightarrow> Inl (TmpNotDir, st)
      | Some Dir \<Rightarrow> Inr st)"

definition copyFile :: "env \<Rightarrow> string \<Rightarrow> string \<Rightarrow> state \<Rightarrow> state res" where
  "copyFile e src dst st =
     (case ReadFile (files st) src of
        None \<Rightarrow> Inl (ReadFileError, st)
      | Some b \<Rightarrow>
          (case WriteFile e (files st) dst b of
             None \<Rightarrow> Inl (CopyFileError, st)
           | Some fs \<Rightarrow> Inr (st\<lparr>files := fs\<rparr>)))"

section \<open>One iteration of the scan\<close>

definition tmpSrcFile :: "string \<Rightarrow> string" where
  "tmpSrcFile fileName = Join tmpDir (''src-'' @ fileName)"

definition tmpTargetFile :: "string \<Rightarrow> string" where
  "tmpTargetFile fileName = Join tmpDir (''target-'' @ fileName)"

definition diffFileName :: "string \<Rightarrow> string" where
  "diffFileName fileName = ''diff-'' @ fileName"

definition diffFile :: "string \<Rightarrow> string" where
  "diffFile fileName = Join tmpDir (diffFileName fileName)"

definition progressLine :: "config \<Rightarrow> string \<Rightarrow> string" where
  "progressLine cfg fileName = ''check '' @ Join (srcDir cfg) fileName @ [CHR 0x0A]"

definition dockerArgs :: "config \<Rightarrow> string \<Rightarrow> string \<Rightarrow> string list" where
  "dockerArgs cfg absTmpDir fileName =
     [''docker'', ''run'', ''--rm'', ''-v'', absTmpDir @ '':/app/'' @ tmpDir, container,
      tmpSrcFile fileName, tmpTargetFile fileName, diffFile fileName, threshold cfg]"

text \<open>
  Lines 101 to 120: the two copies into the workspace, the progress line and the
  command line of the comparator.
\<close>

definition stage :: "env \<Rightarrow> config \<Rightarrow> string \<Rightarrow> state \<Rightarrow> (state \<times> string list) res" where
  "stage e cfg fileName st =
     andThen (copyFile e (Join (srcDir cfg) fileName) (tmpSrcFile fileName) st) (\<lambda>st1.
     andThen (copyFile e (Join (targetDir cfg) fileName) (tmpTargetFile fileName) st1) (\<lambda>st2.
     let st3 = print (progressLine cfg fileName) st2 in
     case absPath e tmpDir of
       None \<Rightarrow> Inl (AbsPathError, st3)
     | Some absTmpDir \<Rightarrow> Inr (st3, dockerArgs cfg absTmpDir fileName)))"

text \<open>Line 121: the subprocess runs; it may change the file system.\<close>

definition runCommand :: "env \<Rightarrow> string list \<Rightarrow> state \<Rightarrow> cmdResult \<times> state" where
  "runCommand e argv st =
     (case docker e (files st) argv of
        (r, fs) \<Rightarrow> (r, st\<lparr>files := fs, calls := calls st @ [argv]\<rparr>))"

text \<open>Lines 122 to 142: the outcome of the pair.\<close>

definition classify :: "env \<Rightarrow> string \<Rightarrow> cmdResult \<Rightarrow> state \<Rightarrow> state res" where
  "classify e fileName r st =
     (if cmdErr r then
        if exitCode r = exitCodeDifferentDimension then
          Inr (st\<lparr>diffDimensions := diffDimensions st @ [fileName]\<rparr>)
        else if exitCode r = exitCodeDifferentPixels then
          (case newDiffPixel fileName (cmdOut r) of
             Inl a \<Rightarrow> Inl (a, st)
           | Inr dp \<Rightarrow>
               let st1 = st\<lparr>diffPixels := diffPixels st @ [dp]\<rparr> in
               (case os_Rename e (files st1) (diffFile fileName) (diffFileName fileName) of
                  None \<Rightarrow> Inl (FileMoveError, st1)
                | Some fs \<Rightarrow> Inr (st1\<lparr>files := fs\<rparr>)))
        else Inl (CommandExecutionError, st)
      else
        (case os_Remove e (files st) (diffFile fileName) of
           None \<Rightarrow> Inl (FileRemoveError, st)
         | Some fs \<Rightarrow> Inr (st\<lparr>files := fs\<rparr>)))"

text \<open>Lines 143 to 148: the two copies are removed.\<close>

definition cleanup :: "env \<Rightarrow> string \<Rightarrow> state \<Rightarrow> state res" where
  "cleanup e fileName st =
     (case os_Remove e (files st) (tmpSrcFile fileName) of
        None \<Rightarrow> Inl (TmpSourceRemoveError, st)
      | Some fs1 \<Rightarrow>
          (case os_Remove e fs1 (tmpTargetFile fileName) of
             None \<Rightarrow> Inl (TmpTargetRemoveError, st\<lparr>files := fs1\<rparr>)
           | Some fs2 \<Rightarrow> Inr (st\<lparr>files := fs2\<rparr>)))"

text \<open>The body of the loop, lines 89 to 148.\<close>

definition compareFile :: "env \<Rightarrow> config \<Rightarrow> string \<Rightarrow> state \<Rightarrow> state res" where
  "compareFile e cfg fileName st =
     (if \<not> HasSuffix fileName ''.png'' then Inr st
      else if files st (Join (targetDir cfg) fileName) = None then Inr st
      else
        andThen (stage e cfg fileName st) (\<lambda>(st3, argv).
        case runCommand e argv st3 of
          (r, st4) \<Rightarrow> andThen (classify e fileName r st4) (cleanup e fileName)))"

section \<open>The scan, the report and the program\<close>

fun scanFiles :: "env \<Rightarrow> config \<Rightarrow> string list \<Rightarrow> state \<Rightarrow> state res" where
  "scanFiles e cfg [] st = Inr st"
| "scanFiles e cfg (f # fs) st = andThen (compareFile e cfg f st) (scanFiles e cfg fs)"

fun printNames :: "string list \<Rightarrow> state \<Rightarrow> state" where
  "printNames [] st = st"
| "printNames (f # fs) st = printNames fs (print (f @ [CHR 0x0A]) st)"

text \<open>What the loop of lines 161 to 163 writes to the tabwriter.\<close>

fun rows :: "diffPixel list \<Rightarrow> string" where
  "rows [] = []"
| "rows (dp # dps) =
     dp_file dp @ [CHR 0x09] @ dp_pixels dp @ [CHR 0x09] @ dp_error dp @ [CHR 0x0A] @ rows dps"

definition report :: "env \<Rightarrow> state \<Rightarrow> state" where
  "report e st =
     (let st1 = (if length (diffDimensions st) > 0
                 then printNames (diffDimensions st)
                        (print (''-- dimensions do not match --'' @ [CHR 0x0A]) st)
                 else st)
      in if length (diffPixels st1) > 0
         then print (tabwriter e (rows (diffPixels st1)))
                (print (''-- Different pixels are found --'' @ [CHR 0x0A]) st1)
         else st1)"

definition listDir :: "env \<Rightarrow> string \<Rightarrow> state \<Rightarrow> (string list \<times> state) res" where
  "listDir e d st =
     (let st1 = st\<lparr>scans := scans st @ [d]\<rparr> in
      case readDir e d of None \<Rightarrow> Inl (ReadDirError, st1) | Some names \<Rightarrow> Inr (names, st1))"

text \<open>
  \<^verbatim>\<open>main\<close>, from the positional arguments left by \<^verbatim>\<open>flag.Parse\<close>; the two
  accumulators start empty (lines 81 and 82).
\<close>

definition main :: "env \<Rightarrow> string list \<Rightarrow> state \<Rightarrow> state res" where
  "main e args st =
     (let cfg = parseArgs args in
      andThen (validate e cfg st) (\<lambda>st1.
      andThen (checkTmpDir e st1) (\<lambda>st2.
      andThen (listDir e (srcDir cfg) (st2\<lparr>diffDimensions := [], diffPixels := []\<rparr>))
        (\<lambda>(names, st3).
      andThen (scanFiles e cfg names st3) (\<lambda>st4.
      Inr (report e st4))))))"

section \<open>A small directory pair, for concrete runs\<close>

text \<open>
  The source and the target directory each hold \<^verbatim>\<open>a.png\<close>, and the workspace exists.
  The environment lists \<^verbatim>\<open>a.png\<close>, \<^verbatim>\<open>b.png\<close> and \<^verbatim>\<open>c.txt\<close> in the source directory,
  permits every file operation, and runs a comparator that returns the result \<open>r\<close>
  and, when \<open>w\<close> holds, writes a diff image to the path of its third argument.
\<close>

definition exampleState :: state where
  "exampleState =
     \<lparr>files = [''src'' \<mapsto> Dir, ''target'' \<mapsto> Dir, ''tmp'' \<mapsto> Dir,
               ''src/a.png'' \<mapsto> File ''A'', ''target/a.png'' \<mapsto> File ''B''],
      stdout = [], calls = [], scans = [], diffDimensions = [], diffPixels = []\<rparr>"

definition exampleEnv :: "cmdResult \<Rightarrow> bool \<Rightarrow> env" where
  "exampleEnv r w =
     \<lparr>dockerInPath = True,
      parseFloat = (\<lambda>s. s = ''0.015'' \<or> s = ''5''),
      readDir = (\<lambda>d. if d = ''src'' then Some [''a.png'', ''b.png'', ''c.txt''] else None),
      absPath = (\<lambda>p. Some (''/work/'' @ p)),
      permitted = (\<lambda>p. True),
      docker = (\<lambda>fs argv. (r, if w then fs(argv ! 8 \<mapsto> File ''D'') else fs)),
      tabwriter = (\<lambda>s. s)\<rparr>"

definition exited :: "int \<Rightarrow> string \<Rightarrow> cmdResult" where
  "exited n out = \<lparr>cmdErr = (n \<noteq> 0), exitCode = n, cmdOut = out\<rparr>"

text \<open>
  A second pair of directories holds \<^verbatim>\<open>x.png\<close> and \<^verbatim>\<open>y.png\<close> on both sides. Its
  comparator writes a diff image, reports different dimensions for \<^verbatim>\<open>x.png\<close> and
  returns \<open>r\<close> for every other file.
\<close>

definition pairState :: state where
  "pairState =
     \<lparr>files = [''src'' \<mapsto> Dir, ''target'' \<mapsto> Dir, ''tmp'' \<mapsto> Dir,
               ''src/x.png'' \<mapsto> File ''X1'', ''target/x.png'' \<mapsto> File ''X2'',
               ''src/y.png'' \<mapsto> File ''Y1'', ''target/y.png'' \<mapsto> File ''Y2''],
      stdout = [], calls = [], scans = [], diffDimensions = [], diffPixels = []\<rparr>"

definition pairEnv :: "cmdResult \<Rightarrow> env" where
  "pairEnv r =
     \<lparr>dockerInPath = True,
      parseFloat = (\<lambda>s. s = ''0.015''),
      readDir = (\<lambda>d. if d = ''src'' then Some [''x.png'', ''y.png'', ''c.txt''] else None),
      absPath = (\<lambda>p. Some (''/work/'' @ p)),
      permitted = (\<lambda>p. True),
      docker = (\<lambda>fs argv. (if argv ! 6 = ''tmp/src-x.png'' then exited 65 [] else r,
                              fs(argv ! 8 \<mapsto> File ''D''))),
      tabwriter = (\<lambda>s. s)\<rparr>"

lemmas program_defs =
  main_def parseArgs_def flag_Arg_def validate_def checkTmpDir_def listDir_def
  compareFile_def stage_def runCommand_def classify_def cleanup_def copyFile_def
  os_Remove_def os_Rename_def os_Mkdir_def ReadFile_def WriteFile_def Join_def Clean_def
  Let_def
  HasSuffix_def print_def andThen_def tmpSrcFile_def tmpTargetFile_def diffFile_def
  diffFileName_def progressLine_def dockerArgs_def defaultThreshold_def
  defaultSrcDir_def defaultTargetDir_def tmpDir_def container_def
  exitCodeDifferentDimension_def exitCodeDifferentPixels_def
  exampleState_def exampleEnv_def exited_def pairState_def pairEnv_def

section \<open>Splitting\<close>

lemma Split_not_Nil: "Split s c \<noteq> []"
  by (induction s) (auto split: list.splits)

lemma Split_no_sep: "c \<notin> set s \<Longrightarrow> Split s c = [s]"
  by (induction s) auto

lemma Split_append_sep: "c \<notin> set a \<Longrightarrow> Split (a @ c # b) c = a # Split b c"
  by (induction a) auto

lemma hd_Split: "hd (Split s c) = takeWhile (\<lambda>x. x \<noteq> c) s"
  by (induction s) (auto split: list.splits simp: Split_not_Nil)

lemma length_Split: "length (Split s c) = Suc (length (filter (\<lambda>x. x = c) s))"
  by (induction s) (auto split: list.splits simp: Split_not_Nil)

lemma Split_has_second: "1 < length (Split s c) \<longleftrightarrow> c \<in> set s"
  by (simp add: length_Split filter_empty_conv)

lemma Split_field:
  assumes "c \<notin> set lab"
  shows "index (Split (lab @ c # v) c) (Suc 0) = Inr (takeWhile (\<lambda>x. x \<noteq> c) v)"
proof -
  have s: "Split (lab @ c # v) c = lab # Split v c"
    using assms by (rule Split_append_sep)
  have n: "Split v c \<noteq> []"
    by (rule Split_not_Nil)
  then have "Split v c ! 0 = hd (Split v c)"
    by (simp add: hd_conv_nth)
  then show ?thesis
    using s n by (simp add: index_def hd_Split)
qed

lemma Split_three_lines:
  assumes "c \<notin> set l1" "c \<notin> set l2" "c \<notin> set l3" "rest = [] \<or> (\<exists>r. rest = c # r)"
  shows "\<exists>more. Split (l1 @ c # l2 @ c # l3 @ rest) c = l1 # l2 # l3 # more"
proof -
  have "Split (l1 @ c # l2 @ c # l3 @ rest) c = l1 # Split (l2 @ c # l3 @ rest) c"
    using assms(1) by (rule Split_append_sep)
  moreover have "Split (l2 @ c # l3 @ rest) c = l2 # Split (l3 @ rest) c"
    using assms(2) by (rule Split_append_sep)
  moreover have "\<exists>more. Split (l3 @ rest) c = l3 # more"
    using assms(3,4) by (auto simp: Split_no_sep Split_append_sep)
  ultimately show ?thesis by auto
qed

section \<open>White space\<close>

text \<open>
  What \<^verbatim>\<open>TrimSpace\<close> returns is its argument, white-space-trimmed in the words
  of the specification.
\<close>

lemma runeWidth_Nil: "[] \<notin> set rs \<Longrightarrow> runeWidth rs [] = 0"
  by (induction rs) (auto simp: runeWidth_def)

lemma trimRunes_no_leading: "[] \<notin> set rs \<Longrightarrow> runeWidth rs (trimRunes rs s) = 0"
  by (induction rs s rule: trimRunes.induct) (simp_all add: runeWidth_Nil)

lemma runeWidth_zero_iff:
  "[] \<notin> set rs \<Longrightarrow> runeWidth rs s = 0 \<longleftrightarrow> (\<forall>r \<in> set rs. take (length r) s \<noteq> r)"
proof -
  assume n: "[] \<notin> set rs"
  show ?thesis
  proof (cases "filter (\<lambda>r. take (length r) s = r) rs")
    case Nil
    then show ?thesis by (auto simp: runeWidth_def filter_empty_conv)
  next
    case (Cons r xs)
    then have "r \<in> set (filter (\<lambda>r. take (length r) s = r) rs)" by simp
    then have "r \<in> set rs" "take (length r) s = r" by simp_all
    with n Cons show ?thesis by (auto simp: runeWidth_def)
  qed
qed

lemma runeWidth_prefix:
  assumes "[] \<notin> set rs" "runeWidth rs (p @ q) = 0"
  shows "runeWidth rs p = 0"
proof -
  have "take (length r) p \<noteq> r" if "r \<in> set rs" for r
  proof
    assume t: "take (length r) p = r"
    then have "length (take (length r) p) = length r"
      by simp
    then have "length r \<le> length p"
      by simp
    with t have "take (length r) (p @ q) = r" by simp
    with assms that show False by (simp add: runeWidth_zero_iff)
  qed
  with assms(1) show ?thesis by (simp add: runeWidth_zero_iff)
qed

lemma runeWidth_in:
  assumes "runeWidth rs s \<noteq> 0"
  shows "take (runeWidth rs s) s \<in> set rs"
proof (cases "filter (\<lambda>r. take (length r) s = r) rs")
  case Nil
  with assms show ?thesis by (simp add: runeWidth_def)
next
  case (Cons r xs)
  then have "r \<in> set (filter (\<lambda>r. take (length r) s = r) rs)" by simp
  then have "r \<in> set rs" "take (length r) s = r" by simp_all
  with Cons show ?thesis by (simp add: runeWidth_def)
qed

lemma trimRunes_strips: "\<exists>ws. set ws \<subseteq> set rs \<and> s = concat ws @ trimRunes rs s"
proof (induction rs s rule: trimRunes.induct)
  case (1 rs)
  have "set [] \<subseteq> set rs \<and> [] = concat [] @ trimRunes rs []" by simp
  then show ?case by blast
next
  case (2 rs c cs)
  let ?n = "runeWidth rs (c # cs)"
  show ?case
  proof (cases "?n = 0")
    case True
    then have "set [] \<subseteq> set rs \<and> c # cs = concat [] @ trimRunes rs (c # cs)" by simp
    then show ?thesis by blast
  next
    case False
    with 2 obtain ws where w: "set ws \<subseteq> set rs"
      "drop (?n - 1) cs = concat ws @ trimRunes rs (drop (?n - 1) cs)"
      by blast
    from False have r: "take ?n (c # cs) \<in> set rs" by (rule runeWidth_in)
    from False have d: "drop ?n (c # cs) = drop (?n - 1) cs"
      by (cases ?n) simp_all
    have "c # cs = take ?n (c # cs) @ drop ?n (c # cs)" by simp
    also have "\<dots> = concat (take ?n (c # cs) # ws) @ trimRunes rs (drop (?n - 1) cs)"
      using d w(2) by simp
    also have "trimRunes rs (drop (?n - 1) cs) = trimRunes rs (c # cs)"
      using False by simp
    finally have "c # cs = concat (take ?n (c # cs) # ws) @ trimRunes rs (c # cs)" .
    moreover from r w(1) have "set (take ?n (c # cs) # ws) \<subseteq> set rs" by simp
    ultimately show ?thesis by blast
  qed
qed

lemma TrimSpace_trimmedOf: "trimmedOf (TrimSpace s) s"
proof -
  have e: "[] \<notin> set spaceRunes" "[] \<notin> set (map rev spaceRunes)"
    by (simp_all add: spaceRunes_def)
  let ?l = "TrimLeftSpace s"
  let ?t = "TrimSpace s"
  obtain ws where ws: "set ws \<subseteq> set spaceRunes" "s = concat ws @ ?l"
    using trimRunes_strips [of spaceRunes s] by (auto simp: TrimLeftSpace_def)
  obtain vs where vs: "set vs \<subseteq> set (map rev spaceRunes)"
    "rev ?l = concat vs @ trimRunes (map rev spaceRunes) (rev ?l)"
    using trimRunes_strips [of "map rev spaceRunes" "rev ?l"] by blast
  from vs(2) have "rev (rev ?l) = rev (concat vs @ trimRunes (map rev spaceRunes) (rev ?l))"
    by simp
  then have l: "?l = ?t @ concat (map rev (rev vs))"
    by (simp add: TrimSpace_def TrimRightSpace_def rev_concat)
  from vs(1) have "set (map rev (rev vs)) \<subseteq> set spaceRunes"
    by auto
  then have trail: "whiteSpace (concat (map rev (rev vs)))"
    unfolding whiteSpace_def by blast
  from ws(1) have lead: "whiteSpace (concat ws)"
    unfolding whiteSpace_def by blast
  from ws(2) l have d: "s = concat ws @ ?t @ concat (map rev (rev vs))"
    by simp
  have "runeWidth spaceRunes ?l = 0"
    using trimRunes_no_leading [OF e(1)] by (simp add: TrimLeftSpace_def)
  with l have "runeWidth spaceRunes (?t @ concat (map rev (rev vs))) = 0" by simp
  then have 1: "runeWidth spaceRunes ?t = 0"
    using e(1) by (rule runeWidth_prefix [rotated])
  have 2: "runeWidth (map rev spaceRunes) (rev ?t) = 0"
    using trimRunes_no_leading [OF e(2)] by (simp add: TrimSpace_def TrimRightSpace_def)
  have "\<not> prefix r ?t \<and> \<not> suffix r ?t" if r: "r \<in> set spaceRunes" for r
  proof
    from 1 r have "take (length r) ?t \<noteq> r"
      by (simp add: runeWidth_zero_iff [OF e(1)])
    then show "\<not> prefix r ?t"
      by (auto simp: prefix_def)
    from 2 r have "take (length (rev r)) (rev ?t) \<noteq> rev r"
      using runeWidth_zero_iff [OF e(2), of "rev ?t"] by auto
    then show "\<not> suffix r ?t"
      by (auto simp: suffix_def)
  qed
  with lead trail d show ?thesis
    unfolding trimmedOf_def by blast
qed

section \<open>The command line\<close>

text \<open>
  Claim C1. The usage text names the arguments \<^verbatim>\<open>THRESHOLD SRC_DIR TARGET_DIR\<close>, and
  the claim has the target directory come from the third of them. The code reads it
  from \<^verbatim>\<open>flag.Arg(1)\<close>, the second: with the arguments \<open>0.015\<close>, \<open>a\<close>, \<open>b\<close> the target
  directory is \<open>a\<close>, the source directory, and \<open>b\<close> is never read.
\<close>

theorem C1_target_dir_is_second_argument:
  "parseArgs [''0.015'', ''a'', ''b''] = \<lparr>threshold = ''0.015'', srcDir = ''a'', targetDir = ''a''\<rparr>"
  by (simp add: parseArgs_def flag_Arg_def)

section \<open>The parser of the comparator's output\<close>

text \<open>
  Claim C5. Let the captured output consist of a first line, a second line
  \<open>lab2:v2\<close> and a third line \<open>lab3:v3\<close> whose labels hold no colon, followed by
  nothing or by a newline and any further text. Then the parser returns a record
  with the given file name, whose pixel count is the text after the first colon of
  the second line, white-space-trimmed, and whose error rate is that of the third
  line. The text after the first colon ends at the next colon of the line, if there
  is one: for a value without a colon it is the whole value.
\<close>

theorem C5_newDiffPixel_label_value:
  assumes "CHR 0x0A \<notin> set l1"
    and "CHR 0x0A \<notin> set (lab2 @ CHR '':'' # v2)"
    and "CHR 0x0A \<notin> set (lab3 @ CHR '':'' # v3)"
    and "rest = [] \<or> (\<exists>r. rest = CHR 0x0A # r)"
    and "CHR '':'' \<notin> set lab2"
    and "CHR '':'' \<notin> set lab3"
  shows "\<exists>p r.
           newDiffPixel f
             (l1 @ CHR 0x0A # (lab2 @ CHR '':'' # v2) @ CHR 0x0A # (lab3 @ CHR '':'' # v3) @ rest)
             = Inr \<lparr>dp_file = f, dp_pixels = p, dp_error = r\<rparr> \<and>
           trimmedOf p (takeWhile (\<lambda>x. x \<noteq> CHR '':'') v2) \<and>
           trimmedOf r (takeWhile (\<lambda>x. x \<noteq> CHR '':'') v3)"
proof -
  obtain more where s:
    "Split (l1 @ CHR 0x0A # (lab2 @ CHR '':'' # v2) @ CHR 0x0A # (lab3 @ CHR '':'' # v3) @ rest)
       (CHR 0x0A)
     = l1 # (lab2 @ CHR '':'' # v2) # (lab3 @ CHR '':'' # v3) # more"
    using Split_three_lines [OF assms(1-4)] by blast
  have "newDiffPixel f
           (l1 @ CHR 0x0A # (lab2 @ CHR '':'' # v2) @ CHR 0x0A # (lab3 @ CHR '':'' # v3) @ rest)
         = Inr \<lparr>dp_file = f,
                dp_pixels = TrimSpace (takeWhile (\<lambda>x. x \<noteq> CHR '':'') v2),
                dp_error = TrimSpace (takeWhile (\<lambda>x. x \<noteq> CHR '':'') v3)\<rparr>"
    unfolding newDiffPixel_def s
    by (simp add: Let_def index_def [of "_ # _"] andThen_def
        Split_field [OF assms(5)] Split_field [OF assms(6)])
  then show ?thesis
    using TrimSpace_trimmedOf by blast
qed

text \<open>
  The example of the specification, \<^verbatim>\<open>"header\npixels: 1234\nerror: 0.042\n"\<close>, and an
  output with a tab, spaces and a carriage return around the values.
\<close>

theorem C5_newDiffPixel_example:
  "newDiffPixel ''a.png''
     (''header'' @ CHR 0x0A # (''pixels'' @ CHR '':'' # '' 1234'') @ CHR 0x0A #
        (''error'' @ CHR '':'' # '' 0.042'') @ [CHR 0x0A])
   = Inr \<lparr>dp_file = ''a.png'', dp_pixels = ''1234'', dp_error = ''0.042''\<rparr> \<and>
   trimmedOf ''1234'' '' 1234'' \<and> trimmedOf ''0.042'' '' 0.042'' \<and>
   newDiffPixel ''b.png''
     (''h'' @ CHR 0x0A # (''pixels'' @ CHR '':'' # ('' '' @ [CHR 0x09] @ ''12 '' @ [CHR 0x0D])) @
        CHR 0x0A # (''error'' @ CHR '':'' # (''  0.5'' @ [CHR 0x09])) @ [])
   = Inr \<lparr>dp_file = ''b.png'', dp_pixels = ''12'', dp_error = ''0.5''\<rparr> \<and>
   trimmedOf ''12'' ('' '' @ [CHR 0x09] @ ''12 '' @ [CHR 0x0D]) \<and>
   trimmedOf ''0.5'' (''  0.5'' @ [CHR 0x09])"
proof -
  let ?a = "''header'' @ CHR 0x0A # (''pixels'' @ CHR '':'' # '' 1234'') @ CHR 0x0A #
        (''error'' @ CHR '':'' # '' 0.042'') @ [CHR 0x0A]"
  let ?b = "''h'' @ CHR 0x0A # (''pixels'' @ CHR '':'' # ('' '' @ [CHR 0x09] @ ''12 '' @ [CHR 0x0D])) @
        CHR 0x0A # (''error'' @ CHR '':'' # (''  0.5'' @ [CHR 0x09])) @ []"
  have a: "newDiffPixel ''a.png'' ?a
             = Inr \<lparr>dp_file = ''a.png'', dp_pixels = ''1234'', dp_error = ''0.042''\<rparr>"
    by code_simp
  have b: "newDiffPixel ''b.png'' ?b
             = Inr \<lparr>dp_file = ''b.png'', dp_pixels = ''12'', dp_error = ''0.5''\<rparr>"
    by code_simp
  have "\<exists>p r. newDiffPixel ''a.png'' ?a = Inr \<lparr>dp_file = ''a.png'', dp_pixels = p, dp_error = r\<rparr> \<and>
          trimmedOf p (takeWhile (\<lambda>x. x \<noteq> CHR '':'') '' 1234'') \<and>
          trimmedOf r (takeWhile (\<lambda>x. x \<noteq> CHR '':'') '' 0.042'')"
    by (rule C5_newDiffPixel_label_value) simp_all
  with a have 1: "trimmedOf ''1234'' '' 1234'' \<and> trimmedOf ''0.042'' '' 0.042''"
    by simp
  have "\<exists>p r. newDiffPixel ''b.png'' ?b = Inr \<lparr>dp_file = ''b.png'', dp_pixels = p, dp_error = r\<rparr> \<and>
          trimmedOf p (takeWhile (\<lambda>x. x \<noteq> CHR '':'') ('' '' @ [CHR 0x09] @ ''12 '' @ [CHR 0x0D])) \<and>
          trimmedOf r (takeWhile (\<lambda>x. x \<noteq> CHR '':'') (''  0.5'' @ [CHR 0x09]))"
    by (rule C5_newDiffPixel_label_value) simp_all
  with b have 2: "trimmedOf ''12'' ('' '' @ [CHR 0x09] @ ''12 '' @ [CHR 0x0D]) \<and>
                  trimmedOf ''0.5'' (''  0.5'' @ [CHR 0x09])"
    by simp
  from a b 1 2 show ?thesis
    by blast
qed

text \<open>
  Claim C6. The parser ends in the panic of an index out of range exactly when the
  captured text has fewer than three newline-separated lines, or its second or its
  third line holds no colon; on every other text it returns a record.
\<close>

theorem C6_newDiffPixel_partial:
  "(\<exists>i n. newDiffPixel f out = Inl (IndexOutOfRange i n)) \<longleftrightarrow>
     length (Split out (CHR 0x0A)) < 3 \<or>
     CHR '':'' \<notin> set (Split out (CHR 0x0A) ! 1) \<or>
     CHR '':'' \<notin> set (Split out (CHR 0x0A) ! 2)"
  by (auto simp: newDiffPixel_def Let_def andThen_def index_def Split_has_second [symmetric]
      split: sum.splits if_splits)

theorem C6_newDiffPixel_partial_witness:
  "length (Split ''header'' (CHR 0x0A)) < 3 \<and>
   newDiffPixel ''a.png'' ''header'' = Inl (IndexOutOfRange 1 1)"
proof -
  have l: "length (Split ''header'' (CHR 0x0A)) < 3"
    by simp
  then obtain i n where "newDiffPixel ''a.png'' ''header'' = Inl (IndexOutOfRange i n)"
    using C6_newDiffPixel_partial [of "''a.png''" "''header''"] by blast
  moreover have "newDiffPixel ''a.png'' ''header'' = Inl (IndexOutOfRange 1 1)"
    by (simp add: newDiffPixel_def andThen_def index_def)
  ultimately show ?thesis
    using l by simp
qed

section \<open>Cleaned paths, and what the steps of an iteration leave unchanged\<close>












lemma copyFile_frame:
  assumes "copyFile e src dst st = Inr st'"
  shows "stdout st' = stdout st \<and> calls st' = calls st \<and> scans st' = scans st \<and>
         diffDimensions st' = diffDimensions st \<and> diffPixels st' = diffPixels st"
  using assms by (auto simp: copyFile_def split: option.splits)

lemma copyFile_abort:
  assumes "copyFile e src dst st = Inl (a, st')"
  shows "st' = st \<and> (a = ReadFileError \<or> a = CopyFileError)"
  using assms by (auto simp: copyFile_def split: option.splits)

lemma stage_Inr:
  assumes "stage e cfg f st = Inr (st3, argv)"
  shows "stdout st3 = stdout st @ progressLine cfg f \<and> calls st3 = calls st \<and>
         scans st3 = scans st \<and> diffDimensions st3 = diffDimensions st \<and>
         diffPixels st3 = diffPixels st \<and>
         (\<exists>d. absPath e tmpDir = Some d \<and> argv = dockerArgs cfg d f)"
proof -
  from assms obtain st1 st2 where
    1: "copyFile e (Join (srcDir cfg) f) (tmpSrcFile f) st = Inr st1"
    and 2: "copyFile e (Join (targetDir cfg) f) (tmpTargetFile f) st1 = Inr st2"
    and 3: "(case absPath e tmpDir of None \<Rightarrow> Inl (AbsPathError, print (progressLine cfg f) st2)
             | Some d \<Rightarrow> Inr (print (progressLine cfg f) st2, dockerArgs cfg d f)) = Inr (st3, argv)"
    by (auto simp: stage_def andThen_def Let_def split: sum.splits)
  from 3 obtain d where a: "absPath e tmpDir = Some d" "argv = dockerArgs cfg d f"
    and s: "st3 = print (progressLine cfg f) st2"
    by (auto split: option.splits)
  from copyFile_frame [OF 1] copyFile_frame [OF 2] s a show ?thesis
    by (simp add: print_def)
qed

lemma stage_Inl:
  assumes "stage e cfg f st = Inl (a, st')"
  shows "calls st' = calls st \<and> scans st' = scans st \<and>
         diffDimensions st' = diffDimensions st \<and> diffPixels st' = diffPixels st \<and>
         (stdout st' = stdout st \<or> stdout st' = stdout st @ progressLine cfg f) \<and>
         (a = ReadFileError \<or> a = CopyFileError \<or> a = AbsPathError)"
proof (cases "copyFile e (Join (srcDir cfg) f) (tmpSrcFile f) st")
  case (Inl x)
  with assms have "copyFile e (Join (srcDir cfg) f) (tmpSrcFile f) st = Inl (a, st')"
    by (simp add: stage_def andThen_def)
  from copyFile_abort [OF this] show ?thesis by auto
next
  case (Inr st1)
  note 1 = copyFile_frame [OF Inr]
  show ?thesis
  proof (cases "copyFile e (Join (targetDir cfg) f) (tmpTargetFile f) st1")
    case (Inl x)
    with assms Inr have "copyFile e (Join (targetDir cfg) f) (tmpTargetFile f) st1 = Inl (a, st')"
      by (simp add: stage_def andThen_def)
    from copyFile_abort [OF this] 1 show ?thesis by auto
  next
    case r2: (Inr st2)
    note 2 = copyFile_frame [OF r2]
    from assms Inr r2 have "a = AbsPathError \<and> st' = print (progressLine cfg f) st2"
      by (auto simp: stage_def andThen_def Let_def split: option.splits)
    with 1 2 show ?thesis by (simp add: print_def)
  qed
qed

lemma classify_frame:
  assumes "classify e f r st = Inr st' \<or> classify e f r st = Inl (a, st')"
  shows "stdout st' = stdout st \<and> calls st' = calls st \<and> scans st' = scans st"
  using assms
  by (auto simp: classify_def Let_def split: if_splits sum.splits option.splits)

lemma cleanup_frame:
  assumes "cleanup e f st = Inr st' \<or> cleanup e f st = Inl (a, st')"
  shows "stdout st' = stdout st \<and> calls st' = calls st \<and> scans st' = scans st \<and>
         diffDimensions st' = diffDimensions st \<and> diffPixels st' = diffPixels st"
  using assms
  by (auto simp: cleanup_def split: option.splits)

lemma compareFile_skip:
  "\<not> (HasSuffix f ''.png'' \<and> files st (Join (targetDir cfg) f) \<noteq> None) \<Longrightarrow>
     compareFile e cfg f st = Inr st"
  by (auto simp: compareFile_def)

lemma compareFile_steps:
  assumes "HasSuffix f ''.png''" "files st (Join (targetDir cfg) f) \<noteq> None"
  shows "compareFile e cfg f st =
           andThen (stage e cfg f st) (\<lambda>(st3, argv).
             andThen (classify e f (fst (docker e (files st3) argv))
                        (st3\<lparr>files := snd (docker e (files st3) argv), calls := calls st3 @ [argv]\<rparr>))
                     (cleanup e f))"
  using assms
  by (auto simp: compareFile_def runCommand_def andThen_def split: sum.splits prod.splits)


section \<open>File pairing\<close>




section \<open>The transient copies\<close>




section \<open>The outcome of a pair\<close>

text \<open>
  Claim C3, as the claim has it, fails: when the comparator exits 0 and has written
  no diff image, the removal of the transient diff path fails and the process ends
  with the fatal error of that removal; the next pair is not processed.
\<close>

theorem C3_exit_zero_without_artifact_is_fatal:
  "isl (compareFile (exampleEnv (exited 0 []) False) (parseArgs []) ''a.png'' exampleState) \<and>
   fst (projl (compareFile (exampleEnv (exited 0 []) False) (parseArgs []) ''a.png'' exampleState))
     = FileRemoveError"
  by (simp add: program_defs)

text \<open>
  Claim C3, amended. Let the comparator end without error (exit 0). When a diff image
  is at the transient diff path and may be removed, it is deleted, the state is
  otherwise unchanged (nothing is added to either list), and processing continues.
  When nothing is at the transient diff path, or it may not be removed, the process
  ends with the fatal error of that removal.
\<close>

theorem C3_exit_zero_removes_artifact:
  assumes "\<not> cmdErr r"
  shows "(files st (diffFile f) \<noteq> None \<and> permitted e (diffFile f) \<longrightarrow>
            classify e f r st = Inr (st\<lparr>files := (files st)(diffFile f := None)\<rparr>)) \<and>
         (files st (diffFile f) = None \<or> \<not> permitted e (diffFile f) \<longrightarrow>
            classify e f r st = Inl (FileRemoveError, st))"
  using assms by (auto simp: classify_def os_Remove_def split: option.splits)

theorem C3_exit_zero_removes_artifact_witness:
  "\<not> cmdErr (exited 0 []) \<and>
   files (exampleState\<lparr>files := (files exampleState)(''tmp/diff-a.png'' \<mapsto> File ''D'')\<rparr>) (diffFile ''a.png'') \<noteq> None \<and>
   permitted (exampleEnv (exited 0 []) True) (diffFile ''a.png'') \<and>
   classify (exampleEnv (exited 0 []) True) ''a.png'' (exited 0 [])
      (exampleState\<lparr>files := (files exampleState)(''tmp/diff-a.png'' \<mapsto> File ''D'')\<rparr>)
    = Inr exampleState \<and>
   files exampleState (diffFile ''a.png'') = None \<and>
   classify (exampleEnv (exited 0 []) False) ''a.png'' (exited 0 []) exampleState
    = Inl (FileRemoveError, exampleState)"
proof -
  have c: "\<not> cmdErr (exited 0 [])" by (simp add: exited_def)
  have p: "files (exampleState\<lparr>files := (files exampleState)(''tmp/diff-a.png'' \<mapsto> File ''D'')\<rparr>) (diffFile ''a.png'') \<noteq> None"
    "permitted (exampleEnv (exited 0 []) True) (diffFile ''a.png'')"
    "files exampleState (diffFile ''a.png'') = None"
    by (simp_all add: program_defs)
  have s: "(exampleState\<lparr>files := (files exampleState)(''tmp/diff-a.png'' \<mapsto> File ''D'')\<rparr>)
     \<lparr>files := (files (exampleState\<lparr>files := (files exampleState)(''tmp/diff-a.png'' \<mapsto> File ''D'')\<rparr>))(diffFile ''a.png'' := None)\<rparr> = exampleState"
    by (simp add: program_defs)
  show ?thesis
    using c p s
      C3_exit_zero_removes_artifact [OF c, of "exampleState\<lparr>files := (files exampleState)(''tmp/diff-a.png'' \<mapsto> File ''D'')\<rparr>" "''a.png''" "exampleEnv (exited 0 []) True"]
      C3_exit_zero_removes_artifact [OF c, of exampleState "''a.png''" "exampleEnv (exited 0 []) False"]
    by simp
qed



section \<open>Startup validation\<close>

text \<open>
  Claim C8. When \<^verbatim>\<open>strconv.ParseFloat\<close> rejects the threshold, the program ends in
  \<^verbatim>\<open>validate\<close> with the fatal threshold error (with the fatal error of the missing
  \<^verbatim>\<open>docker\<close>, checked first, when that is not on the path), with exit status 1 and
  the state it started from: no directory has been listed and no subprocess started.
  The threshold takes part in the validation through \<^verbatim>\<open>ParseFloat\<close> alone: every
  threshold it accepts passes, whatever its value.
\<close>

theorem C8_unparsable_threshold_aborts:
  "(\<not> parseFloat e (threshold (parseArgs args)) \<longrightarrow>
      main e args st = Inl (if dockerInPath e then ThresholdError else DockerNotInstalled, st) \<and>
      exitStatus (if dockerInPath e then ThresholdError else DockerNotInstalled) \<noteq> 0) \<and>
   (dockerInPath e \<and> parseFloat e (threshold cfg) \<and> files st (srcDir cfg) = Some Dir \<and>
    files st (targetDir cfg) = Some Dir \<longrightarrow> validate e cfg st = Inr st)"
  by (simp add: main_def validate_def andThen_def Let_def)

theorem C8_unparsable_threshold_aborts_witness:
  "\<not> parseFloat (exampleEnv (exited 0 []) True) (threshold (parseArgs [''not-a-number''])) \<and>
   main (exampleEnv (exited 0 []) True) [''not-a-number''] exampleState
     = Inl (ThresholdError, exampleState) \<and>
   parseFloat (exampleEnv (exited 0 []) True) (threshold (parseArgs [''5''])) \<and>
   validate (exampleEnv (exited 0 []) True) (parseArgs [''5'']) exampleState = Inr exampleState"
proof -
  let ?e = "exampleEnv (exited 0 []) True"
  have n: "\<not> parseFloat ?e (threshold (parseArgs [''not-a-number'']))" "dockerInPath ?e"
    by (simp_all add: program_defs)
  have y: "dockerInPath ?e \<and> parseFloat ?e (threshold (parseArgs [''5''])) \<and>
           files exampleState (srcDir (parseArgs [''5''])) = Some Dir \<and>
           files exampleState (targetDir (parseArgs [''5''])) = Some Dir"
    by (simp add: program_defs)
  from C8_unparsable_threshold_aborts [of ?e "[''not-a-number'']" exampleState "parseArgs [''5'']"] n y
  show ?thesis by simp
qed

section \<open>The scan as a whole\<close>

lemma scanFiles_append:
  "scanFiles e cfg (xs @ ys) st = andThen (scanFiles e cfg xs st) (scanFiles e cfg ys)"
  by (induction xs arbitrary: st) (auto simp: andThen_def split: sum.splits)

lemma validate_Inr: "validate e cfg st = Inr st1 \<Longrightarrow> st1 = st"
  by (auto simp: validate_def split: if_splits option.splits entry.splits)

lemma checkTmpDir_Inr: "checkTmpDir e st = Inr st2 \<Longrightarrow> stdout st2 = stdout st"
  by (auto simp: checkTmpDir_def split: option.splits entry.splits)

lemma listDir_Inr:
  "listDir e d st = Inr (names, st3) \<Longrightarrow>
     readDir e d = Some names \<and> st3 = st\<lparr>scans := scans st @ [d]\<rparr>"
  by (auto simp: listDir_def Let_def split: option.splits)

lemma classify_lists:
  assumes "classify e f r st = Inr st'"
  shows "(diffDimensions st' = diffDimensions st \<or> diffDimensions st' = diffDimensions st @ [f]) \<and>
         (diffPixels st' = diffPixels st \<or>
          (\<exists>dp. dp_file dp = f \<and> diffPixels st' = diffPixels st @ [dp]))"
proof -
  have n: "dp_file dp = f" if "newDiffPixel f out = Inr dp" for dp out
    using that by (auto simp: newDiffPixel_def Let_def andThen_def split: sum.splits)
  from assms show ?thesis
    by (auto simp: classify_def Let_def n split: if_splits sum.splits option.splits)
qed

lemma classify_abort_lists:
  assumes "classify e f r st = Inl (a, st')" "a = CommandExecutionError"
  shows "diffDimensions st' = diffDimensions st \<and> diffPixels st' = diffPixels st"
  using assms
  by (auto simp: classify_def Let_def split: if_splits sum.splits option.splits)

text \<open>What one iteration does to standard output and to the two lists.\<close>

lemma compareFile_effect:
  assumes "compareFile e cfg f st = Inr st' \<or> compareFile e cfg f st = Inl (a, st')"
  shows "stdout st' = stdout st \<or> stdout st' = stdout st @ progressLine cfg f"
    and "compareFile e cfg f st = Inr st' \<Longrightarrow>
           (diffDimensions st' = diffDimensions st \<or> diffDimensions st' = diffDimensions st @ [f]) \<and>
           (diffPixels st' = diffPixels st \<or>
            (\<exists>dp. dp_file dp = f \<and> diffPixels st' = diffPixels st @ [dp]))"
proof -
  have "(stdout st' = stdout st \<or> stdout st' = stdout st @ progressLine cfg f) \<and>
        (compareFile e cfg f st = Inr st' \<longrightarrow>
           (diffDimensions st' = diffDimensions st \<or> diffDimensions st' = diffDimensions st @ [f]) \<and>
           (diffPixels st' = diffPixels st \<or>
            (\<exists>dp. dp_file dp = f \<and> diffPixels st' = diffPixels st @ [dp])))"
  proof (cases "HasSuffix f ''.png'' \<and> files st (Join (targetDir cfg) f) \<noteq> None")
    case False
    then have "compareFile e cfg f st = Inr st" by (rule compareFile_skip)
    with assms show ?thesis by auto
  next
    case True
    then have p: "HasSuffix f ''.png''" "files st (Join (targetDir cfg) f) \<noteq> None" by simp_all
    show ?thesis
    proof (cases "stage e cfg f st")
      case (Inl x)
      with assms have "stage e cfg f st = Inl (a, st')" "compareFile e cfg f st \<noteq> Inr st'"
        by (auto simp: compareFile_steps [OF p] andThen_def)
      with stage_Inl [of e cfg f st a st'] show ?thesis by blast
    next
      case (Inr y)
      obtain st3 argv where y: "y = (st3, argv)" by (cases y)
      note s = stage_Inr [OF Inr [unfolded y]]
      let ?st4 = "st3\<lparr>files := snd (docker e (files st3) argv), calls := calls st3 @ [argv]\<rparr>"
      let ?r = "fst (docker e (files st3) argv)"
      have c: "compareFile e cfg f st = andThen (classify e f ?r ?st4) (cleanup e f)"
        by (simp add: compareFile_steps [OF p] Inr y andThen_def)
      show ?thesis
      proof (cases "classify e f ?r ?st4")
        case (Inl x)
        with c assms have k: "classify e f ?r ?st4 = Inl (a, st')" "compareFile e cfg f st \<noteq> Inr st'"
          by (auto simp: andThen_def)
        from k(1) have "stdout st' = stdout ?st4" using classify_frame by blast
        with s k(2) show ?thesis by simp
      next
        case i: (Inr st5)
        then have o: "stdout st5 = stdout ?st4" using classify_frame by blast
        from c assms i have u: "cleanup e f st5 = Inr st' \<or> cleanup e f st5 = Inl (a, st')"
          by (auto simp: andThen_def)
        from cleanup_frame [OF u] classify_lists [OF i] o s show ?thesis by auto
      qed
    qed
  qed
  then show "stdout st' = stdout st \<or> stdout st' = stdout st @ progressLine cfg f"
    and "compareFile e cfg f st = Inr st' \<Longrightarrow>
           (diffDimensions st' = diffDimensions st \<or> diffDimensions st' = diffDimensions st @ [f]) \<and>
           (diffPixels st' = diffPixels st \<or>
            (\<exists>dp. dp_file dp = f \<and> diffPixels st' = diffPixels st @ [dp]))"
    by blast+
qed

lemma scanFiles_stdout:
  assumes "scanFiles e cfg names st = Inr st' \<or> scanFiles e cfg names st = Inl (a, st')"
  shows "\<exists>ns. subseq ns names \<and> stdout st' = stdout st @ concat (map (progressLine cfg) ns)"
  using assms
proof (induction names arbitrary: st)
  case Nil
  then have "st' = st" by simp
  then have "subseq [] [] \<and> stdout st' = stdout st @ concat (map (progressLine cfg) [])" by simp
  then show ?case by blast
next
  case (Cons f fs)
  show ?case
  proof (cases "compareFile e cfg f st")
    case (Inl x)
    with Cons.prems have c: "compareFile e cfg f st = Inl (a, st')"
      by (auto simp: andThen_def)
    from compareFile_effect(1) [of e cfg f st st' a] c
    have "stdout st' = stdout st @ concat (map (progressLine cfg) []) \<or>
          stdout st' = stdout st @ concat (map (progressLine cfg) [f])" by simp
    moreover have "subseq [] (f # fs)" "subseq [f] (f # fs)" by simp_all
    ultimately show ?thesis by blast
  next
    case (Inr st1)
    with Cons.prems have "scanFiles e cfg fs st1 = Inr st' \<or> scanFiles e cfg fs st1 = Inl (a, st')"
      by (auto simp: andThen_def)
    from Cons.IH [OF this] obtain ns where
      n: "subseq ns fs" "stdout st' = stdout st1 @ concat (map (progressLine cfg) ns)" by blast
    from compareFile_effect(1) [of e cfg f st st1 a] Inr
    have "stdout st1 = stdout st \<or> stdout st1 = stdout st @ progressLine cfg f" by simp
    with n have "stdout st' = stdout st @ concat (map (progressLine cfg) ns) \<or>
          stdout st' = stdout st @ concat (map (progressLine cfg) (f # ns))"
      by auto
    moreover from n(1) have "subseq ns (f # fs)" "subseq (f # ns) (f # fs)"
      by (simp_all add: list_emb_Cons)
    ultimately show ?thesis by blast
  qed
qed

lemma scanFiles_lists:
  assumes "scanFiles e cfg names st = Inr st'"
  shows "(\<exists>ds. subseq ds names \<and> diffDimensions st' = diffDimensions st @ ds) \<and>
         (\<exists>ps. subseq (map dp_file ps) names \<and> diffPixels st' = diffPixels st @ ps)"
  using assms
proof (induction names arbitrary: st)
  case Nil
  then have "st' = st" by simp
  then show ?case by simp
next
  case (Cons f fs)
  from Cons.prems obtain st1 where
    1: "compareFile e cfg f st = Inr st1" and 2: "scanFiles e cfg fs st1 = Inr st'"
    by (auto simp: andThen_def split: sum.splits)
  from Cons.IH [OF 2] obtain ds ps where
    d: "subseq ds fs" "diffDimensions st' = diffDimensions st1 @ ds"
    and p: "subseq (map dp_file ps) fs" "diffPixels st' = diffPixels st1 @ ps"
    by blast
  note c = compareFile_effect(2) [of e cfg f st st1 a, OF _ 1]
  have "\<exists>ds. subseq ds (f # fs) \<and> diffDimensions st' = diffDimensions st @ ds"
  proof -
    from c 1 have "diffDimensions st1 = diffDimensions st \<or> diffDimensions st1 = diffDimensions st @ [f]"
      by blast
    with d have "diffDimensions st' = diffDimensions st @ ds \<or>
                 diffDimensions st' = diffDimensions st @ (f # ds)" by auto
    moreover from d(1) have "subseq ds (f # fs)" "subseq (f # ds) (f # fs)"
      by (simp_all add: list_emb_Cons)
    ultimately show ?thesis by blast
  qed
  moreover have "\<exists>ps. subseq (map dp_file ps) (f # fs) \<and> diffPixels st' = diffPixels st @ ps"
  proof -
    from c 1 have "diffPixels st1 = diffPixels st \<or>
          (\<exists>dp. dp_file dp = f \<and> diffPixels st1 = diffPixels st @ [dp])"
      by blast
    then show ?thesis
    proof
      assume "diffPixels st1 = diffPixels st"
      with p have "subseq (map dp_file ps) (f # fs) \<and> diffPixels st' = diffPixels st @ ps"
        by (simp add: list_emb_Cons)
      then show ?thesis by blast
    next
      assume "\<exists>dp. dp_file dp = f \<and> diffPixels st1 = diffPixels st @ [dp]"
      then obtain dp where "dp_file dp = f" "diffPixels st1 = diffPixels st @ [dp]" by blast
      with p have "subseq (map dp_file (dp # ps)) (f # fs) \<and> diffPixels st' = diffPixels st @ (dp # ps)"
        by simp
      then show ?thesis by blast
    qed
  qed
  ultimately show ?case by blast
qed

text \<open>
  Claim C9. Let the program have passed its startup checks and listed the source
  directory, and let the scan have completed the entries before \<open>f\<close>. When the
  comparator run for \<open>f\<close> ends with an error and an exit status other than 65 and 66
  (a failure to start gives the status \<open>-1\<close>), \<^verbatim>\<open>main\<close> ends there with the fatal
  error of the command and exit status 1. The two lists are as they were before \<open>f\<close>,
  the entries after \<open>f\<close> are not visited, and standard output holds what it held at the
  start, the progress lines of entries before \<open>f\<close>, in their order, and the progress
  line of \<open>f\<close>: whatever the lists hold, no section of the report is printed.
\<close>

theorem C9_unexpected_exit_aborts_run:
  assumes "validate e (parseArgs args) st0 = Inr st1"
    and "checkTmpDir e st1 = Inr st2"
    and "listDir e (srcDir (parseArgs args)) (st2\<lparr>diffDimensions := [], diffPixels := []\<rparr>)
           = Inr (pre @ f # rest, st3)"
    and "scanFiles e (parseArgs args) pre st3 = Inr st"
    and "HasSuffix f ''.png''"
    and "files st (Join (targetDir (parseArgs args)) f) \<noteq> None"
    and "stage e (parseArgs args) f st = Inr (st5, argv)"
    and "docker e (files st5) argv = (r, fs)"
    and "cmdErr r" and "exitCode r \<noteq> 65" and "exitCode r \<noteq> 66"
  shows "main e args st0
           = Inl (CommandExecutionError, st5\<lparr>files := fs, calls := calls st5 @ [argv]\<rparr>) \<and>
         exitStatus CommandExecutionError \<noteq> 0 \<and>
         diffDimensions st5 = diffDimensions st \<and> diffPixels st5 = diffPixels st \<and>
         stdout st5 = stdout st @ progressLine (parseArgs args) f \<and>
         (\<exists>ns. subseq ns pre \<and>
               stdout st = stdout st0 @ concat (map (progressLine (parseArgs args)) ns))"
proof -
  let ?cfg = "parseArgs args"
  let ?st6 = "st5\<lparr>files := fs, calls := calls st5 @ [argv]\<rparr>"
  have k: "classify e f r ?st6 = Inl (CommandExecutionError, ?st6)"
    using assms(9-11)
    by (simp add: classify_def exitCodeDifferentDimension_def exitCodeDifferentPixels_def)
  have c: "compareFile e ?cfg f st = Inl (CommandExecutionError, ?st6)"
    using assms(7,8) k by (simp add: compareFile_steps [OF assms(5,6)] andThen_def)
  have s: "scanFiles e ?cfg (pre @ f # rest) st3 = Inl (CommandExecutionError, ?st6)"
    using assms(4) c by (simp add: scanFiles_append andThen_def)
  have m: "main e args st0 = Inl (CommandExecutionError, ?st6)"
    using assms(1-3) s by (simp add: main_def andThen_def Let_def)
  note g = stage_Inr [OF assms(7)]
  from scanFiles_stdout [of e ?cfg pre st3 st] assms(4) obtain ns where
    n: "subseq ns pre" "stdout st = stdout st3 @ concat (map (progressLine ?cfg) ns)"
    by blast
  from listDir_Inr [OF assms(3)] checkTmpDir_Inr [OF assms(2)] validate_Inr [OF assms(1)]
  have "stdout st3 = stdout st0"
    by simp
  with n have "\<exists>ns. subseq ns pre \<and> stdout st = stdout st0 @ concat (map (progressLine ?cfg) ns)"
    by auto
  with m g show ?thesis by simp
qed

theorem C9_unexpected_exit_aborts_run_witness:
  "isl (main (pairEnv (exited 1 [])) [] pairState) \<and>
   fst (projl (main (pairEnv (exited 1 [])) [] pairState)) = CommandExecutionError \<and>
   diffDimensions (snd (projl (main (pairEnv (exited 1 [])) [] pairState))) = [''x.png''] \<and>
   stdout (snd (projl (main (pairEnv (exited 1 [])) [] pairState)))
     = ''check src/x.png'' @ [CHR 0x0A] @ ''check src/y.png'' @ [CHR 0x0A]"
proof -
  let ?e = "pairEnv (exited 1 [])"
  let ?c = "parseArgs []"
  let ?st3 = "pairState\<lparr>diffDimensions := [], diffPixels := [], scans := scans pairState @ [srcDir ?c]\<rparr>"
  let ?s = "scanFiles ?e ?c [''x.png''] ?st3"
  have sv: "projr ?s =
    pairState\<lparr>scans := [''src''], diffDimensions := [''x.png''],
      stdout := ''check src/x.png'' @ [CHR 0x0A],
      calls := [dockerArgs ?c ''/work/tmp'' ''x.png''],
      files := (files pairState)(''tmp/diff-x.png'' \<mapsto> File ''D'')\<rparr>" "\<not> isl ?s"
    by (simp_all add: program_defs fun_upd_twist)
  let ?st = "projr ?s"
  let ?g = "stage ?e ?c ''y.png'' ?st"
  have h: "validate ?e ?c pairState = Inr pairState"
    "checkTmpDir ?e pairState = Inr pairState"
    "listDir ?e (srcDir ?c) (pairState\<lparr>diffDimensions := [], diffPixels := []\<rparr>)
       = Inr ([''x.png''] @ ''y.png'' # [''c.txt''], ?st3)"
    by (simp_all add: program_defs)
  have s: "?s = Inr ?st"
    using sv(2) by (cases ?s) simp_all
  have p: "HasSuffix ''y.png'' ''.png''" "files ?st (Join (targetDir ?c) ''y.png'') \<noteq> None"
    unfolding sv(1) by (simp_all add: program_defs)
  have gv: "\<not> isl ?g" "stdout (fst (projr ?g)) = ''check src/x.png'' @ [CHR 0x0A] @ ''check src/y.png'' @ [CHR 0x0A]"
    "diffDimensions (fst (projr ?g)) = [''x.png'']"
    unfolding sv(1) by (simp_all add: program_defs)
  then have g: "?g = Inr (fst (projr ?g), snd (projr ?g))"
    by (cases ?g) simp_all
  have d: "docker ?e (files (fst (projr ?g))) (snd (projr ?g)) =
             (exited 1 [], (files (fst (projr ?g)))(snd (projr ?g) ! 8 \<mapsto> File ''D''))"
    unfolding sv(1) by (simp add: program_defs)
  have x: "cmdErr (exited 1 [])" "exitCode (exited 1 []) \<noteq> 65" "exitCode (exited 1 []) \<noteq> 66"
    by (simp_all add: exited_def)
  from C9_unexpected_exit_aborts_run [OF h s p g d x]
  have "main ?e [] pairState =
          Inl (CommandExecutionError,
               (fst (projr ?g))\<lparr>files := (files (fst (projr ?g)))(snd (projr ?g) ! 8 \<mapsto> File ''D''),
                                calls := calls (fst (projr ?g)) @ [snd (projr ?g)]\<rparr>)"
    by blast
  with gv show ?thesis by simp
qed

section \<open>The report\<close>

lemma printNames_closed:
  "printNames fs st = st\<lparr>stdout := stdout st @ concat (map (\<lambda>f. f @ [CHR 0x0A]) fs)\<rparr>"
  by (induction fs arbitrary: st) (simp_all add: print_def)

lemma rows_closed:
  "rows dps = concat (map (\<lambda>dp. dp_file dp @ [CHR 0x09] @ dp_pixels dp @ [CHR 0x09] @
                                   dp_error dp @ [CHR 0x0A]) dps)"
  by (induction dps) simp_all

lemma report_closed:
  "report e st =
     st\<lparr>stdout := stdout st @
        (if diffDimensions st = [] then []
         else ''-- dimensions do not match --'' @ [CHR 0x0A] @
              concat (map (\<lambda>f. f @ [CHR 0x0A]) (diffDimensions st))) @
        (if diffPixels st = [] then []
         else ''-- Different pixels are found --'' @ [CHR 0x0A] @
              tabwriter e (concat (map (\<lambda>dp. dp_file dp @ [CHR 0x09] @ dp_pixels dp @
                                              [CHR 0x09] @ dp_error dp @ [CHR 0x0A])
                                       (diffPixels st))))\<rparr>"
  by (simp add: report_def Let_def printNames_closed rows_closed print_def)

text \<open>
  Claim C10. Let the program have passed its startup checks, listed the source
  directory and completed the scan. Then \<^verbatim>\<open>main\<close> ends normally, and what it appends
  to the output of the scan (the progress lines of compared entries, in their order)
  is, in this order: when the dimension-mismatch list is not empty, its header and the
  names of the list, one on each line; when the pixel-mismatch list is not empty, its
  header and what the tabwriter makes of one row for each record, a row being the
  file name, the pixel count and the error rate, each of the first two followed by a
  tab and the last by a newline. When both lists are empty nothing is appended. Both
  lists are in scan order: each is a subsequence of the listing.
\<close>

theorem C10_report_sections:
  assumes "validate e (parseArgs args) st0 = Inr st1"
    and "checkTmpDir e st1 = Inr st2"
    and "listDir e (srcDir (parseArgs args)) (st2\<lparr>diffDimensions := [], diffPixels := []\<rparr>)
           = Inr (names, st3)"
    and "scanFiles e (parseArgs args) names st3 = Inr st4"
  shows "main e args st0 =
           Inr (st4\<lparr>stdout := stdout st4 @
                  (if diffDimensions st4 = [] then []
                   else ''-- dimensions do not match --'' @ [CHR 0x0A] @
                        concat (map (\<lambda>f. f @ [CHR 0x0A]) (diffDimensions st4))) @
                  (if diffPixels st4 = [] then []
                   else ''-- Different pixels are found --'' @ [CHR 0x0A] @
                        tabwriter e
                          (concat (map (\<lambda>dp. dp_file dp @ [CHR 0x09] @ dp_pixels dp @
                                             [CHR 0x09] @ dp_error dp @ [CHR 0x0A])
                                       (diffPixels st4))))\<rparr>) \<and>
         (\<exists>ns. subseq ns names \<and>
               stdout st4 = stdout st0 @ concat (map (progressLine (parseArgs args)) ns)) \<and>
         subseq (diffDimensions st4) names \<and>
         subseq (map dp_file (diffPixels st4)) names"
proof -
  let ?cfg = "parseArgs args"
  have m: "main e args st0 = Inr (report e st4)"
    using assms by (simp add: main_def andThen_def Let_def)
  note l = listDir_Inr [OF assms(3)]
  from l checkTmpDir_Inr [OF assms(2)] validate_Inr [OF assms(1)]
  have o: "stdout st3 = stdout st0" "diffDimensions st3 = []" "diffPixels st3 = []"
    by simp_all
  from scanFiles_stdout [of e ?cfg names st3 st4] assms(4) o(1)
  have 1: "\<exists>ns. subseq ns names \<and> stdout st4 = stdout st0 @ concat (map (progressLine ?cfg) ns)"
    by auto
  from scanFiles_lists [OF assms(4)] o(2,3)
  have 2: "subseq (diffDimensions st4) names" "subseq (map dp_file (diffPixels st4)) names"
    by auto
  from m 1 2 show ?thesis
    by (simp only: report_closed)
qed


theorem C10_report_sections_witness:
  "\<not> isl (main (pairEnv (exited 66 (''h'' @ CHR 0x0A # ''pixels: 500'' @ CHR 0x0A # ''error: 0.03'' @ [CHR 0x0A]))) [] pairState) \<and>
   stdout (projr (main (pairEnv (exited 66 (''h'' @ CHR 0x0A # ''pixels: 500'' @ CHR 0x0A # ''error: 0.03'' @ [CHR 0x0A]))) [] pairState))
     = ''check src/x.png'' @ [CHR 0x0A] @ ''check src/y.png'' @ [CHR 0x0A] @
       ''-- dimensions do not match --'' @ [CHR 0x0A] @ ''x.png'' @ [CHR 0x0A] @
       ''-- Different pixels are found --'' @ [CHR 0x0A] @
       ''y.png'' @ [CHR 0x09] @ ''500'' @ [CHR 0x09] @ ''0.03'' @ [CHR 0x0A] \<and>
   stdout (projr (main (exampleEnv (exited 0 []) True) [] exampleState))
     = ''check src/a.png'' @ [CHR 0x0A]"
proof -
  let ?e = "pairEnv (exited 66 (''h'' @ CHR 0x0A # ''pixels: 500'' @ CHR 0x0A # ''error: 0.03'' @ [CHR 0x0A]))"
  let ?c = "parseArgs []"
  let ?st3 = "pairState\<lparr>diffDimensions := [], diffPixels := [], scans := scans pairState @ [srcDir ?c]\<rparr>"
  let ?names = "[''x.png'', ''y.png'', ''c.txt'']"
  let ?s = "scanFiles ?e ?c ?names ?st3"
  have t: "TrimSpace '' 500'' = ''500''" "TrimSpace '' 0.03'' = ''0.03''"
    by code_simp+
  have h: "validate ?e ?c pairState = Inr pairState"
    "checkTmpDir ?e pairState = Inr pairState"
    "listDir ?e (srcDir ?c) (pairState\<lparr>diffDimensions := [], diffPixels := []\<rparr>) = Inr (?names, ?st3)"
    by (simp_all add: program_defs)
  have sv: "\<not> isl ?s" "stdout (projr ?s) = ''check src/x.png'' @ [CHR 0x0A] @ ''check src/y.png'' @ [CHR 0x0A]"
    "diffDimensions (projr ?s) = [''x.png'']"
    "diffPixels (projr ?s) = [\<lparr>dp_file = ''y.png'', dp_pixels = ''500'', dp_error = ''0.03''\<rparr>]"
    by (simp_all add: program_defs newDiffPixel_def index_def t)
  then have s: "?s = Inr (projr ?s)"
    by (cases ?s) simp_all
  have tw: "tabwriter ?e = (\<lambda>s. s)"
    by (simp add: pairEnv_def)
  note a = C10_report_sections [OF h s]
  let ?e' = "exampleEnv (exited 0 []) True"
  let ?st3' = "exampleState\<lparr>diffDimensions := [], diffPixels := [], scans := scans exampleState @ [srcDir ?c]\<rparr>"
  let ?s' = "scanFiles ?e' ?c [''a.png'', ''b.png'', ''c.txt''] ?st3'"
  have h': "validate ?e' ?c exampleState = Inr exampleState"
    "checkTmpDir ?e' exampleState = Inr exampleState"
    "listDir ?e' (srcDir ?c) (exampleState\<lparr>diffDimensions := [], diffPixels := []\<rparr>)
       = Inr ([''a.png'', ''b.png'', ''c.txt''], ?st3')"
    by (simp_all add: program_defs)
  have sv': "\<not> isl ?s'" "stdout (projr ?s') = ''check src/a.png'' @ [CHR 0x0A]"
    "diffDimensions (projr ?s') = []" "diffPixels (projr ?s') = []"
    by (simp_all add: program_defs)
  then have s': "?s' = Inr (projr ?s')"
    by (cases ?s') simp_all
  note b = C10_report_sections [OF h' s']
  from a sv tw b sv' show ?thesis
    by simp
qed

end
